theory Spec2Isabelle
  imports Main "HOL-Library.Sublist"
begin

section \<open>Order tracking page: data model\<close>

text \<open>
  The embedding follows \<^verbatim>\<open>src/app/orders/tracking-orders/page.tsx\<close>.  The second
  source file is an earlier variant of the same page, with the same search filter and the
  same early return, no visibility filter and no tracking documents, and a status update
  that writes \<open>status\<close> and \<open>updatedAt\<close> for every target status; the claims are about the
  first.
  The type of JavaScript numbers is a type variable \<open>'n\<close>, and the comparison \<open><\<close>, the
  subtraction and the multiplication of the host language are the operations of the classes
  \<open>ord\<close>, \<open>minus\<close> and \<open>times\<close>, which assume no law: nothing is supposed about rounding,
  range or fractions, and what is proved holds for any arithmetic.  The examples use
  \<^typ>\<open>int\<close>.  A \<^verbatim>\<open>Date\<close> or a store timestamp is a \<^typ>\<open>nat\<close> (milliseconds); an optional
  field is an \<^typ>\<open>'a option\<close>.  Strings are \<^typ>\<open>string\<close>: a character is one of the 256
  code points up to U+00FF.  Where two interfaces of the source share a field name, the
  field is written with its record name in front (\<open>stock.quantity\<close>, \<open>history.quantity\<close>).
\<close>

type_synonym date = nat

text \<open>An element of \<^verbatim>\<open>Order.items\<close>.\<close>

record 'n item =
  cartId :: string
  productSize :: string
  productVarieties :: "string list"
  productQuantity :: 'n
  productPrice :: 'n

record userDetails =
  firstName :: string
  lastName :: string

text \<open>
  \<^verbatim>\<open>Order.orderDetails\<close>.  The interface does not declare \<open>completedAt\<close>, but
  \<^verbatim>\<open>handleStatusUpdate\<close> writes the field \<^verbatim>\<open>orderDetails.completedAt\<close> of the order
  document, so the document model carries it.
\<close>

record 'n orderDetails =
  pickupTime :: string
  pickupDate :: string
  status :: string
  totalAmount :: 'n
  paymentMethod :: string
  paymentStatus :: "string option"
  gcashReference :: "string option"
  createdAt :: string
  updatedAt :: "string option"
  completedAt :: "string option"

text \<open>
  A document of the \<^verbatim>\<open>orders\<close> collection, and the \<^verbatim>\<open>Order\<close> object the page keeps in
  its state: the document data extended with the document id, the document reference and
  the resolved customer name (\<^verbatim>\<open>{ id: doc.id, ref: doc.ref, ...data, userDetails }\<close>).
\<close>

record 'n orderDoc =
  userId :: string
  orderDetails :: "'n orderDetails"
  items :: "'n item list"

record 'n order = "'n orderDoc" +
  id_order :: string
  userDetails :: "userDetails option"
  ref :: "string option"

text \<open>\<^verbatim>\<open>interface TrackingOrder\<close>: a document of \<^verbatim>\<open>tracking_orders\<close>.\<close>

record 'n trackingOrder =
  orderId :: string
  userId :: string
  customerName :: string
  paymentMethod :: string
  paymentStatus :: string
  orderStatus :: string
  createdAt :: date
  updatedAt :: date
  pickupTime :: string
  pickupDate :: string
  totalAmount :: 'n
  items :: "'n item list"

text \<open>
  A document of \<^verbatim>\<open>stocks\<close>, with the fields the page reads and writes; \<open>id_stock\<close> is the
  document id (\<^verbatim>\<open>stockDoc.id\<close>).
\<close>

record 'n stock =
  id_stock :: string
  sizeName :: string
  varieties :: "string list"
  quantity :: 'n
  lastUpdated :: date

text \<open>The document written to \<^verbatim>\<open>stockHistory\<close>; \<open>type_history\<close> is its field \<^verbatim>\<open>type\<close>.\<close>

record 'n history =
  varieties :: "string list"
  sizeName :: string
  type_history :: string
  quantity :: 'n
  previousStock :: 'n
  currentStock :: 'n
  date :: date
  updatedBy :: string
  remarks :: string
  stockId :: string
  isDeleted :: bool

text \<open>The document written to \<^verbatim>\<open>sales\<close> and its line items; \<open>size_sale\<close> is the field \<^verbatim>\<open>size\<close>.\<close>

record 'n saleItem =
  size_sale :: string
  varieties :: "string list"
  quantity :: 'n
  price :: 'n
  subtotal :: 'n

record 'n sale =
  orderId :: string
  amount :: 'n
  date :: date
  items :: "'n saleItem list"
  paymentMethod :: string
  customerName :: string

text \<open>
  The store.  \<open>orders_coll\<close> maps a document id to its document.  \<open>stocks_coll\<close> lists the
  stock documents in the order in which a query returns them, so that \<^verbatim>\<open>docs[0]\<close> is the
  head of the filtered list.  \<open>stockHistory_coll\<close>, \<open>sales_coll\<close> and \<open>tracking_orders_coll\<close>
  list their documents in the order of insertion; their generated document ids are not
  modelled.
\<close>

record 'n db =
  orders_coll :: "string \<rightharpoonup> 'n orderDoc"
  stocks_coll :: "'n stock list"
  stockHistory_coll :: "'n history list"
  sales_coll :: "'n sale list"
  tracking_orders_coll :: "'n trackingOrder list"

section \<open>String helpers of the host language\<close>

text \<open>\<^verbatim>\<open>Array.prototype.join\<close>.\<close>

fun join :: "string \<Rightarrow> string list \<Rightarrow> string" where
  "join sep [] = []"
| "join sep [x] = x"
| "join sep (x # y # ys) = x @ sep @ join sep (y # ys)"






text \<open>\<^verbatim>\<open>x || d\<close> for a string \<open>x\<close> that may be absent: absent and empty are both falsy.\<close>

definition orElse :: "string option \<Rightarrow> string \<Rightarrow> string" where
  "orElse x d = (case x of None \<Rightarrow> d | Some s \<Rightarrow> if s = [] then d else s)"

text \<open>The template \<^verbatim>\<open>`${firstName} ${lastName}`\<close>.\<close>

definition fullName :: "userDetails \<Rightarrow> string" where
  "fullName ud = firstName ud @ '' '' @ lastName ud"

section \<open>The visibility filter of the snapshot listener\<close>

text \<open>The predicate passed to \<^verbatim>\<open>orderList.filter\<close> (lines 174 to 181).\<close>

definition paymentVisible :: "'n order \<Rightarrow> bool" where
  "paymentVisible order =
     (if orderDetails.paymentMethod (orderDetails order) = ''GCash''
      then orderDetails.paymentStatus (orderDetails order) = Some ''approved''
      else orderDetails.paymentStatus (orderDetails order) \<noteq> Some ''pending'')"

definition filteredOrders_snapshot :: "'n order list \<Rightarrow> 'n order list" where
  "filteredOrders_snapshot orderList = filter paymentVisible orderList"

section \<open>saveTrackingOrder\<close>

text \<open>
  The object \<^verbatim>\<open>trackingOrder\<close> built at lines 111 to 124.  \<open>parseDate\<close> stands for the
  constructor \<^verbatim>\<open>new Date(string)\<close> and \<open>now\<close> for \<^verbatim>\<open>new Date()\<close>.
\<close>

definition buildTrackingOrder ::
    "(string \<Rightarrow> date) \<Rightarrow> date \<Rightarrow> 'n order \<Rightarrow> 'n trackingOrder" where
  "buildTrackingOrder parseDate now order =
     \<lparr> trackingOrder.orderId = id_order order,
       trackingOrder.userId = orderDoc.userId order,
       trackingOrder.customerName =
         (case userDetails order of None \<Rightarrow> ''Unknown'' | Some ud \<Rightarrow> fullName ud),
       trackingOrder.paymentMethod = orderDetails.paymentMethod (orderDetails order),
       trackingOrder.paymentStatus =
         orElse (orderDetails.paymentStatus (orderDetails order)) ''unknown'',
       trackingOrder.orderStatus = orElse (Some (status (orderDetails order))) ''unknown'',
       trackingOrder.createdAt = parseDate (orderDetails.createdAt (orderDetails order)),
       trackingOrder.updatedAt = now,
       trackingOrder.pickupTime = orderDetails.pickupTime (orderDetails order),
       trackingOrder.pickupDate = orderDetails.pickupDate (orderDetails order),
       trackingOrder.totalAmount = orderDetails.totalAmount (orderDetails order),
       trackingOrder.items = orderDoc.items order \<rparr>"

text \<open>
  \<^verbatim>\<open>updateDoc(trackingSnapshot.docs[0].ref, fields)\<close>: the first document that the query
  selects is replaced; the others stay.
\<close>

fun updateFirst :: "('a \<Rightarrow> bool) \<Rightarrow> 'a \<Rightarrow> 'a list \<Rightarrow> 'a list" where
  "updateFirst P y [] = []"
| "updateFirst P y (x # xs) = (if P x then y # xs else x # updateFirst P y xs)"

text \<open>
  \<open>serverNow\<close> is the value the store puts for \<^verbatim>\<open>serverTimestamp()\<close>.  The update writes
  every field of \<^verbatim>\<open>trackingOrder\<close> (the spread \<^verbatim>\<open>...trackingOrder\<close>) and then
  \<open>updatedAt\<close>; the insertion writes them and then \<open>createdAt\<close> and \<open>updatedAt\<close>.
\<close>

definition saveTrackingOrder ::
    "(string \<Rightarrow> date) \<Rightarrow> date \<Rightarrow> date \<Rightarrow> 'n order \<Rightarrow> 'n db \<Rightarrow> 'n db" where
  "saveTrackingOrder parseDate now serverNow order d =
     (let trackingOrder = buildTrackingOrder parseDate now order;
          trackingSnapshot =
            filter (\<lambda>t. trackingOrder.orderId t = id_order order) (tracking_orders_coll d)
      in case trackingSnapshot of
           [] \<Rightarrow>
             d\<lparr>tracking_orders_coll := tracking_orders_coll d @
                 [trackingOrder\<lparr>trackingOrder.createdAt := serverNow,
                                trackingOrder.updatedAt := serverNow\<rparr>]\<rparr>
         | trackingDoc # _ \<Rightarrow>
             d\<lparr>tracking_orders_coll :=
                 updateFirst (\<lambda>t. trackingOrder.orderId t = id_order order)
                   (trackingOrder\<lparr>trackingOrder.updatedAt := serverNow\<rparr>)
                   (tracking_orders_coll d)\<rparr>)"

section \<open>handleStatusUpdate\<close>

datatype error = Error string

text \<open>
  What the caller of \<^verbatim>\<open>handleStatusUpdate\<close> sees: the early \<^verbatim>\<open>return\<close> of line 203
  (nothing but a console message), or an \<^verbatim>\<open>alert\<close> with its text.
\<close>

datatype outcome = Returned | Alert string

text \<open>
  The writes a transaction queues: \<^verbatim>\<open>transaction.update\<close> of a stock document
  (id, quantity, lastUpdated), \<^verbatim>\<open>transaction.set\<close> of a new history document and of a
  new sales document, and \<^verbatim>\<open>transaction.update\<close> of the order document (id, status,
  updatedAt, and completedAt when present).
\<close>

datatype 'n txWrite =
    UpdateStock string 'n date
  | SetHistory "'n history"
  | SetSale "'n sale"
  | UpdateOrder string string string "string option"

fun applyWrite :: "'n txWrite \<Rightarrow> 'n db \<Rightarrow> 'n db" where
  "applyWrite (UpdateStock sid q t) d =
     d\<lparr>stocks_coll :=
         map (\<lambda>s. if id_stock s = sid then s\<lparr>stock.quantity := q, lastUpdated := t\<rparr> else s)
           (stocks_coll d)\<rparr>"
| "applyWrite (SetHistory h) d = d\<lparr>stockHistory_coll := stockHistory_coll d @ [h]\<rparr>"
| "applyWrite (SetSale s) d = d\<lparr>sales_coll := sales_coll d @ [s]\<rparr>"
| "applyWrite (UpdateOrder k st upd cmpl) d =
     (case orders_coll d k of
        None \<Rightarrow> d
      | Some doc \<Rightarrow>
          d\<lparr>orders_coll := (orders_coll d)(k \<mapsto>
              doc\<lparr>orderDetails := (orderDetails doc)
                \<lparr>status := st,
                 orderDetails.updatedAt := Some upd,
                 completedAt := (case cmpl of None \<Rightarrow> completedAt (orderDetails doc)
                                 | Some c \<Rightarrow> Some c)\<rparr>\<rparr>)\<rparr>)"

text \<open>
  \<^verbatim>\<open>array-contains-any\<close>: the array field holds one of the given values.
  \<open>matchingStocks\<close> is what the two filters of the query of lines 222 to 226 select.
\<close>

definition arrayContainsAny :: "string list \<Rightarrow> string list \<Rightarrow> bool" where
  "arrayContainsAny arr vals = list_ex (\<lambda>v. List.member arr v) vals"

definition matchingStocks :: "'n db \<Rightarrow> 'n item \<Rightarrow> 'n stock list" where
  "matchingStocks d item =
     filter (\<lambda>s. stock.sizeName s = productSize item
                 \<and> arrayContainsAny (stock.varieties s) (productVarieties item))
       (stocks_coll d)"

text \<open>
  The client library checks the value list of an \<^verbatim>\<open>array-contains-any\<close> filter when
  \<^verbatim>\<open>query\<close> builds the query: for an empty list it throws an error with the message
  below, inside the transaction function, before anything is read.  Otherwise the query
  runs.  It is sent with \<^verbatim>\<open>getDocs\<close>, not through the transaction, so it reads the
  stored documents and not the writes the transaction has queued.  The largest value list
  the library or the store accepts depends on the release and is not modelled: item
  variety lists are taken to be within it.
\<close>

definition invalidQueryMessage :: string where
  "invalidQueryMessage =
     ''Invalid Query. A non-empty array is required for 'array-contains-any' filters.''"

definition stockQuery :: "'n db \<Rightarrow> 'n item \<Rightarrow> error + 'n stock list" where
  "stockQuery d item =
     (if productVarieties item = [] then Inl (Error invalidQueryMessage)
      else Inr (matchingStocks d item))"

definition noStockMessage :: "'n item \<Rightarrow> string" where
  "noStockMessage item =
     ''No stock found for '' @ productSize item @ '' with varieties ''
       @ join '', '' (productVarieties item)"

definition insufficientStockMessage :: "'n item \<Rightarrow> string" where
  "insufficientStockMessage item =
     ''Insufficient stock for '' @ productSize item @ '' with varieties ''
       @ join '', '' (productVarieties item)"

text \<open>The history document of lines 254 to 266.\<close>

definition historyEntry ::
    "date \<Rightarrow> string \<Rightarrow> ('n::minus) item \<Rightarrow> 'n stock \<Rightarrow> 'n history" where
  "historyEntry now ordId item stockDoc =
     \<lparr> history.varieties = productVarieties item,
       history.sizeName = productSize item,
       type_history = ''out'',
       history.quantity = productQuantity item,
       previousStock = stock.quantity stockDoc,
       currentStock = stock.quantity stockDoc - productQuantity item,
       history.date = now,
       updatedBy = ''System'',
       remarks = ''Order '' @ ordId @ '' ready for pickup'',
       stockId = id_stock stockDoc,
       isDeleted = False \<rparr>"

text \<open>
  The loop \<^verbatim>\<open>for (const item of order.items)\<close> of lines 219 to 267.  A \<^verbatim>\<open>throw\<close> leaves
  the loop with the error; otherwise the two writes of the item are queued and the loop
  goes on.
\<close>

fun reduceStock ::
    "date \<Rightarrow> string \<Rightarrow> ('n::{ord,minus}) db \<Rightarrow> 'n item list \<Rightarrow> error + 'n txWrite list" where
  "reduceStock now ordId d [] = Inr []"
| "reduceStock now ordId d (item # rest) =
     (case stockQuery d item of
        Inl e \<Rightarrow> Inl e
      | Inr [] \<Rightarrow> Inl (Error (noStockMessage item))
      | Inr (stockDoc # _) \<Rightarrow>
          if stock.quantity stockDoc < productQuantity item
          then Inl (Error (insufficientStockMessage item))
          else (case reduceStock now ordId d rest of
                  Inl e \<Rightarrow> Inl e
                | Inr ws \<Rightarrow>
                    Inr (UpdateStock (id_stock stockDoc)
                           (stock.quantity stockDoc - productQuantity item) now
                         # SetHistory (historyEntry now ordId item stockDoc) # ws)))"

text \<open>The sales document of lines 274 to 287.\<close>

definition saleItemOf :: "('n::times) item \<Rightarrow> 'n saleItem" where
  "saleItemOf item =
     \<lparr> size_sale = productSize item,
       saleItem.varieties = productVarieties item,
       saleItem.quantity = productQuantity item,
       price = productPrice item,
       subtotal = productQuantity item * productPrice item \<rparr>"

definition saleOf :: "date \<Rightarrow> string \<Rightarrow> ('n::times) order \<Rightarrow> 'n sale" where
  "saleOf now ordId order =
     \<lparr> sale.orderId = ordId,
       amount = orderDetails.totalAmount (orderDetails order),
       sale.date = now,
       sale.items = map saleItemOf (orderDoc.items order),
       sale.paymentMethod = orderDetails.paymentMethod (orderDetails order),
       sale.customerName =
         (case userDetails order of None \<Rightarrow> ''Unknown'' | Some ud \<Rightarrow> fullName ud) \<rparr>"

text \<open>
  The function passed to \<^verbatim>\<open>runTransaction\<close> (lines 207 to 302): it reads the order
  document, throws or queues writes.  \<open>now\<close> is \<^verbatim>\<open>new Date()\<close> and \<open>nowIso\<close> is
  \<^verbatim>\<open>new Date().toISOString()\<close>; the clock is taken to be read once per call.
\<close>

definition updateFunction ::
    "date \<Rightarrow> string \<Rightarrow> ('n::{ord,minus,times}) order \<Rightarrow> string \<Rightarrow> string \<Rightarrow> 'n db
      \<Rightarrow> error + 'n txWrite list" where
  "updateFunction now nowIso order ordId newStatus d =
     (case orders_coll d ordId of
        None \<Rightarrow> Inl (Error ''Order not found'')
      | Some orderDoc \<Rightarrow>
          (case (if newStatus = ''Ready for Pickup''
                 then reduceStock now ordId d (orderDoc.items order) else Inr []) of
             Inl e \<Rightarrow> Inl e
           | Inr stockWrites \<Rightarrow>
               Inr (stockWrites
                    @ (if newStatus = ''Completed'' then [SetSale (saleOf now ordId order)] else [])
                    @ [UpdateOrder ordId newStatus nowIso
                         (if newStatus = ''Completed'' then Some nowIso else None)])))"

text \<open>
  \<^verbatim>\<open>runTransaction\<close>, one attempt without contention: an error thrown by the function
  drops the queued writes; otherwise they are applied together, in the order queued.
\<close>

definition runTransaction ::
    "('n db \<Rightarrow> error + 'n txWrite list) \<Rightarrow> 'n db \<Rightarrow> error + 'n db" where
  "runTransaction f d = (case f d of Inl e \<Rightarrow> Inl e | Inr ws \<Rightarrow> Inr (fold applyWrite ws d))"

definition successMessage :: "string \<Rightarrow> string" where
  "successMessage newStatus =
     ''Order '' @ (if newStatus = ''Completed'' then ''completed and sales updated''
                   else ''status updated'') @ '' successfully!''"

text \<open>
  \<^verbatim>\<open>handleStatusUpdate(orderId, newStatus)\<close> over the page state \<open>ords\<close> (the hook value
  \<^verbatim>\<open>orders\<close>) and the store; it returns the store afterwards and what the caller sees.
\<close>

definition handleStatusUpdate ::
    "date \<Rightarrow> string \<Rightarrow> ('n::{ord,minus,times}) order list \<Rightarrow> string \<Rightarrow> string \<Rightarrow> 'n db
      \<Rightarrow> 'n db \<times> outcome" where
  "handleStatusUpdate now nowIso ords ordId newStatus d =
     (case find (\<lambda>x. id_order x = ordId) ords of
        None \<Rightarrow> (d, Returned)
      | Some order \<Rightarrow>
          (case ref order of
             None \<Rightarrow> (d, Returned)
           | Some r \<Rightarrow>
               (case runTransaction (updateFunction now nowIso order ordId newStatus) d of
                  Inl (Error msg) \<Rightarrow> (d, Alert msg)
                | Inr d' \<Rightarrow> (d', Alert (successMessage newStatus)))))"

section \<open>The search filter\<close>



section \<open>The stock document a line item selects\<close>

text \<open>
  \<open>firstMatch\<close> is \<^verbatim>\<open>stockSnapshot.docs[0]\<close> when the query runs and its snapshot is not
  empty.  A line item can be fulfilled when it selects a document whose quantity is not
  less than the quantity it asks for, which is when no \<^verbatim>\<open>throw\<close> is reached for it.
\<close>

definition firstMatch :: "'n db \<Rightarrow> 'n item \<Rightarrow> 'n stock option" where
  "firstMatch d item =
     (case stockQuery d item of
        Inl e \<Rightarrow> None
      | Inr [] \<Rightarrow> None
      | Inr (stockDoc # _) \<Rightarrow> Some stockDoc)"

definition canFulfil :: "('n::ord) db \<Rightarrow> 'n item \<Rightarrow> bool" where
  "canFulfil d item =
     (case firstMatch d item of None \<Rightarrow> False
      | Some stockDoc \<Rightarrow> \<not> stock.quantity stockDoc < productQuantity item)"

section \<open>Two transactions that overlap\<close>

text \<open>
  The store runs a transaction in two steps: the transaction function runs against the
  store as it is then and queues its writes; the writes are committed later, when other
  transactions may have committed theirs.  The commit is refused, and the function run
  again, when a document read through the transaction has changed in between: here that
  is the order document, the only one read with \<^verbatim>\<open>transaction.get\<close> (line 210).  The
  stock documents are read with \<^verbatim>\<open>getDocs\<close> (line 228) and are not checked.
  \<open>commitWrites\<close> is the second step, for a function that read the store \<open>dRead\<close>;
  \<open>runTransaction\<close> above is both steps with no commit in between.
\<close>

definition commitWrites :: "string \<Rightarrow> 'n db \<Rightarrow> 'n txWrite list \<Rightarrow> 'n db \<Rightarrow> 'n db option" where
  "commitWrites ordId dRead ws d =
     (if orders_coll d ordId = orders_coll dRead ordId then Some (fold applyWrite ws d)
      else None)"

text \<open>
  The end of a status update whose transaction function ran on the store \<open>dRead\<close> with
  the result \<open>r\<close>, when the store has become \<open>d\<close>: an error thrown by the function is
  alerted and nothing is written; otherwise the writes are committed and the success is
  alerted.  \<open>None\<close> stands for a refused commit, after which the client runs the function
  again; the rerun is not followed here.
\<close>

definition finishTransaction ::
    "string \<Rightarrow> string \<Rightarrow> 'n db \<Rightarrow> error + 'n txWrite list \<Rightarrow> 'n db \<Rightarrow> ('n db \<times> outcome) option" where
  "finishTransaction ordId newStatus dRead r d =
     (case r of
        Inl (Error msg) \<Rightarrow> Some (d, Alert msg)
      | Inr ws \<Rightarrow>
          (case commitWrites ordId dRead ws d of
             None \<Rightarrow> None
           | Some d' \<Rightarrow> Some (d', Alert (successMessage newStatus))))"

text \<open>
  Two status updates, of two loaded orders with document references, whose transaction
  functions both run on the store \<open>d\<close> before either transaction ends; then the first
  ends, then the second.  The result is the store after both and the two alerts.
\<close>

definition overlappingUpdates ::
    "date \<Rightarrow> string \<Rightarrow> ('n::{ord,minus,times}) order \<Rightarrow> date \<Rightarrow> string \<Rightarrow> 'n order \<Rightarrow> string
      \<Rightarrow> 'n db \<Rightarrow> ('n db \<times> outcome \<times> outcome) option" where
  "overlappingUpdates now1 nowIso1 order1 now2 nowIso2 order2 newStatus d =
     (let r1 = updateFunction now1 nowIso1 order1 (id_order order1) newStatus d;
          r2 = updateFunction now2 nowIso2 order2 (id_order order2) newStatus d
      in case finishTransaction (id_order order1) newStatus d r1 d of
           None \<Rightarrow> None
         | Some (d1, outcome1) \<Rightarrow>
             (case finishTransaction (id_order order2) newStatus d r2 d1 of
                None \<Rightarrow> None
              | Some (d2, outcome2) \<Rightarrow> Some (d2, outcome1, outcome2)))"

section \<open>Example data\<close>

text \<open>
  A small store and one loaded order, used to evaluate the functions above: two line items,
  one stock document for each, and no history, sales or tracking documents yet.
\<close>

definition exampleItemA :: "int item" where
  "exampleItemA = \<lparr> cartId = ''c1'', productSize = ''Large'', productVarieties = [''Ube''],
     productQuantity = 3, productPrice = 50 \<rparr>"

definition exampleItemB :: "int item" where
  "exampleItemB = \<lparr> cartId = ''c2'', productSize = ''Small'',
     productVarieties = [''Cheese'', ''Pandan''], productQuantity = 2, productPrice = 20 \<rparr>"

definition exampleDetails :: "int orderDetails" where
  "exampleDetails = \<lparr> orderDetails.pickupTime = ''10:00'', orderDetails.pickupDate = ''2025-03-01'',
     status = ''Preparing Order'', orderDetails.totalAmount = 190,
     orderDetails.paymentMethod = ''Cash'', orderDetails.paymentStatus = None,
     gcashReference = None, orderDetails.createdAt = ''2025-02-27T08:00:00.000Z'',
     orderDetails.updatedAt = None, completedAt = None \<rparr>"

definition exampleOrder :: "int order" where
  "exampleOrder = \<lparr> orderDoc.userId = ''u1'', orderDetails = exampleDetails,
     orderDoc.items = [exampleItemA, exampleItemB], id_order = ''Ord1'',
     userDetails = Some \<lparr> firstName = ''Ana'', lastName = ''Cruz'' \<rparr>,
     ref = Some ''orders/Ord1'' \<rparr>"

definition exampleDoc :: "int orderDoc" where
  "exampleDoc = \<lparr> orderDoc.userId = ''u1'', orderDetails = exampleDetails,
     orderDoc.items = [exampleItemA, exampleItemB] \<rparr>"

definition exampleStockA :: "int stock" where
  "exampleStockA = \<lparr> id_stock = ''s1'', stock.sizeName = ''Large'',
     stock.varieties = [''Ube'', ''Pandan''], stock.quantity = 5, lastUpdated = 0 \<rparr>"

definition exampleStockB :: "int stock" where
  "exampleStockB = \<lparr> id_stock = ''s2'', stock.sizeName = ''Small'',
     stock.varieties = [''Cheese''], stock.quantity = 10, lastUpdated = 0 \<rparr>"

definition exampleDb :: "int db" where
  "exampleDb = \<lparr> orders_coll = [''Ord1'' \<mapsto> exampleDoc],
     stocks_coll = [exampleStockA, exampleStockB], stockHistory_coll = [], sales_coll = [],
     tracking_orders_coll = [] \<rparr>"

definition exampleParseDate :: "string \<Rightarrow> date" where
  "exampleParseDate s = 1000"

section \<open>Containment up to letter case, in the words of the specification\<close>





section \<open>The sum of a list of numbers\<close>

text \<open>
  For the invariant of the data model that the total of an order is the sum of its lines:
  the sum with the addition and the zero of the number type, from the left.
\<close>

fun spec_sum :: "('n::{plus,zero}) list \<Rightarrow> 'n" where
  "spec_sum [] = 0"
| "spec_sum (x # xs) = x + spec_sum xs"

section \<open>Unfolding the example data and the stock query\<close>

lemmas example_defs = exampleOrder_def exampleDb_def exampleDoc_def exampleDetails_def
  exampleItemA_def exampleItemB_def exampleStockA_def exampleStockB_def

lemmas query_defs = firstMatch_def canFulfil_def stockQuery_def matchingStocks_def
  arrayContainsAny_def

section \<open>Properties of the visibility filter\<close>

text \<open>
  C5.  The visibility filter is a total function of the order: an order paid by GCash is
  visible exactly when its payment status is \<open>approved\<close>; any other order is visible
  exactly when its payment status is not \<open>pending\<close>, so an order without a payment status
  that is not paid by GCash is visible.  The listener keeps exactly the visible orders.
\<close>

theorem C5_paymentVisible:
  "(orderDetails.paymentMethod (orderDetails (order :: 'n order)) = ''GCash'' \<longrightarrow>
      paymentVisible order = (orderDetails.paymentStatus (orderDetails order) = Some ''approved''))
   \<and> (orderDetails.paymentMethod (orderDetails order) \<noteq> ''GCash'' \<longrightarrow>
      paymentVisible order = (orderDetails.paymentStatus (orderDetails order) \<noteq> Some ''pending''))
   \<and> (orderDetails.paymentMethod (orderDetails order) \<noteq> ''GCash''
        \<and> orderDetails.paymentStatus (orderDetails order) = None \<longrightarrow> paymentVisible order)
   \<and> filteredOrders_snapshot (orderList :: 'n order list) = filter paymentVisible orderList"
  by (simp add: paymentVisible_def filteredOrders_snapshot_def)

theorem C5_paymentVisible_witness:
  "paymentVisible (exampleOrder\<lparr>orderDetails := exampleDetails
       \<lparr>orderDetails.paymentMethod := ''GCash'', orderDetails.paymentStatus := Some ''approved''\<rparr>\<rparr>)
   \<and> \<not> paymentVisible (exampleOrder\<lparr>orderDetails := exampleDetails
       \<lparr>orderDetails.paymentMethod := ''GCash'', orderDetails.paymentStatus := None\<rparr>\<rparr>)
   \<and> \<not> paymentVisible (exampleOrder\<lparr>orderDetails := exampleDetails
       \<lparr>orderDetails.paymentStatus := Some ''pending''\<rparr>\<rparr>)
   \<and> paymentVisible exampleOrder"
  using C5_paymentVisible [of "exampleOrder\<lparr>orderDetails := exampleDetails
       \<lparr>orderDetails.paymentMethod := ''GCash'', orderDetails.paymentStatus := Some ''approved''\<rparr>\<rparr>"]
    C5_paymentVisible [of "exampleOrder\<lparr>orderDetails := exampleDetails
       \<lparr>orderDetails.paymentMethod := ''GCash'', orderDetails.paymentStatus := None\<rparr>\<rparr>"]
    C5_paymentVisible [of "exampleOrder\<lparr>orderDetails := exampleDetails
       \<lparr>orderDetails.paymentStatus := Some ''pending''\<rparr>\<rparr>"]
    C5_paymentVisible [of exampleOrder]
  by (simp add: exampleOrder_def exampleDetails_def)

section \<open>Properties of the status update\<close>

text \<open>
  C10.  When no loaded order has the given id, or the loaded order has no document
  reference, \<open>handleStatusUpdate\<close> returns at once: the store is left as it was (no
  transaction runs) and the caller gets no alert.
\<close>

theorem C10_not_loaded:
  assumes "ordId \<notin> id_order ` set ords
           \<or> (\<exists>order. find (\<lambda>x. id_order x = ordId) ords = Some order \<and> ref order = None)"
  shows "handleStatusUpdate now nowIso ords ordId newStatus d = (d, Returned)"
proof -
  from assms consider (absent) "find (\<lambda>x. id_order x = ordId) ords = None"
    | (noref) order where "find (\<lambda>x. id_order x = ordId) ords = Some order" "ref order = None"
    by (auto simp: find_None_iff)
  then show ?thesis
    by cases (simp_all add: handleStatusUpdate_def)
qed


theorem C10_not_loaded_witness:
  "handleStatusUpdate 7 ''T7'' [exampleOrder] ''Ord2'' ''Completed'' exampleDb = (exampleDb, Returned)
   \<and> handleStatusUpdate 7 ''T7'' [exampleOrder\<lparr>ref := None\<rparr>] ''Ord1'' ''Ready for Pickup'' exampleDb
       = (exampleDb, Returned)"
proof -
  have a: "''Ord2'' \<notin> id_order ` set [exampleOrder]"
    by (simp add: exampleOrder_def)
  have b: "\<exists>order. find (\<lambda>x. id_order x = ''Ord1'') [exampleOrder\<lparr>ref := None\<rparr>] = Some order
             \<and> ref order = None"
    by (simp add: exampleOrder_def)
  show ?thesis
    using C10_not_loaded [OF disjI1, OF a] C10_not_loaded [OF disjI2, OF b] by simp
qed

lemma handleStatusUpdate_loaded:
  assumes "find (\<lambda>x. id_order x = ordId) ords = Some order" "ref order = Some r"
  shows "handleStatusUpdate now nowIso ords ordId newStatus d =
     (case updateFunction now nowIso order ordId newStatus d of
        Inl (Error msg) \<Rightarrow> (d, Alert msg)
      | Inr ws \<Rightarrow> (fold applyWrite ws d, Alert (successMessage newStatus)))"
  using assms
  by (simp add: handleStatusUpdate_def runTransaction_def split: sum.splits error.splits)

lemma handleStatusUpdate_cases:
  "(handleStatusUpdate now nowIso ords ordId newStatus d = (d, Returned))
   \<or> (\<exists>order r. find (\<lambda>x. id_order x = ordId) ords = Some order \<and> ref order = Some r)"
  by (auto simp: handleStatusUpdate_def split: option.splits)

lemma updateFunction_plain:
  assumes "newStatus \<noteq> ''Ready for Pickup''" "newStatus \<noteq> ''Completed''"
  shows "updateFunction now nowIso order ordId newStatus d =
     (case orders_coll d ordId of
        None \<Rightarrow> Inl (Error ''Order not found'')
      | Some doc \<Rightarrow> Inr [UpdateOrder ordId newStatus nowIso None])"
  using assms by (simp add: updateFunction_def split: option.splits)

text \<open>
  C7.  For a target status other than \<open>Ready for Pickup\<close> and \<open>Completed\<close>, the stock
  documents, the stock history and the sales documents are unchanged and no order document
  other than the addressed one changes; for a loaded order whose document exists, the
  result is the store with the fields \<open>status\<close> and \<open>updatedAt\<close> of that document set, and
  nothing else: \<open>completedAt\<close> keeps the value it had.
\<close>

theorem C7_other_status:
  assumes "newStatus \<noteq> ''Ready for Pickup''" and "newStatus \<noteq> ''Completed''"
  shows "stocks_coll (fst (handleStatusUpdate now nowIso ords ordId newStatus d)) = stocks_coll d
    \<and> stockHistory_coll (fst (handleStatusUpdate now nowIso ords ordId newStatus d))
        = stockHistory_coll d
    \<and> sales_coll (fst (handleStatusUpdate now nowIso ords ordId newStatus d)) = sales_coll d
    \<and> (\<forall>k. k \<noteq> ordId \<longrightarrow>
          orders_coll (fst (handleStatusUpdate now nowIso ords ordId newStatus d)) k
            = orders_coll d k)
    \<and> (\<forall>order r doc.
          find (\<lambda>x. id_order x = ordId) ords = Some order \<and> ref order = Some r
            \<and> orders_coll d ordId = Some doc \<longrightarrow>
          handleStatusUpdate now nowIso ords ordId newStatus d =
            (d\<lparr>orders_coll := (orders_coll d)(ordId \<mapsto>
                 doc\<lparr>orderDetails := (orderDetails doc)
                   \<lparr>status := newStatus, orderDetails.updatedAt := Some nowIso\<rparr>\<rparr>)\<rparr>,
             Alert ''Order status updated successfully!''))"
proof -
  let ?res = "handleStatusUpdate now nowIso ords ordId newStatus d"
  have exact: "?res =
      (d\<lparr>orders_coll := (orders_coll d)(ordId \<mapsto>
           doc\<lparr>orderDetails := (orderDetails doc)
             \<lparr>status := newStatus, orderDetails.updatedAt := Some nowIso\<rparr>\<rparr>)\<rparr>,
       Alert ''Order status updated successfully!'')"
    if "find (\<lambda>x. id_order x = ordId) ords = Some order" "ref order = Some r"
      "orders_coll d ordId = Some doc" for order r doc
    using that assms
    by (simp add: handleStatusUpdate_loaded [OF that(1,2)] updateFunction_plain successMessage_def)
  have other: "?res = (d, Alert ''Order not found'')"
    if "find (\<lambda>x. id_order x = ordId) ords = Some order" "ref order = Some r"
      "orders_coll d ordId = None" for order r
    using that assms
    by (simp add: handleStatusUpdate_loaded [OF that(1,2)] updateFunction_plain)
  consider (ret) "?res = (d, Returned)"
    | (nf) "?res = (d, Alert ''Order not found'')"
    | (ok) order r doc where "find (\<lambda>x. id_order x = ordId) ords = Some order"
        "ref order = Some r" "orders_coll d ordId = Some doc"
    using handleStatusUpdate_cases [of now nowIso ords ordId newStatus d] other
    by (cases "orders_coll d ordId") auto
  then have frame: "stocks_coll (fst ?res) = stocks_coll d
      \<and> stockHistory_coll (fst ?res) = stockHistory_coll d
      \<and> sales_coll (fst ?res) = sales_coll d
      \<and> (\<forall>k. k \<noteq> ordId \<longrightarrow> orders_coll (fst ?res) k = orders_coll d k)"
  proof cases
    case ok
    show ?thesis by (simp add: exact [OF ok])
  qed simp_all
  from frame exact show ?thesis by blast
qed

theorem C7_other_status_witness:
  "handleStatusUpdate 7 ''T7'' [exampleOrder] ''Ord1'' ''Cancelled'' exampleDb =
     (exampleDb\<lparr>orders_coll := [''Ord1'' \<mapsto>
         exampleDoc\<lparr>orderDetails := exampleDetails
           \<lparr>status := ''Cancelled'', orderDetails.updatedAt := Some ''T7''\<rparr>\<rparr>]\<rparr>,
      Alert ''Order status updated successfully!'')
   \<and> stocks_coll (fst (handleStatusUpdate 7 ''T7'' [exampleOrder] ''Ord1'' ''Cancelled'' exampleDb))
       = [exampleStockA, exampleStockB]
   \<and> orders_coll (fst (handleStatusUpdate 7 ''T7'' [exampleOrder] ''Ord1'' ''Cancelled'' exampleDb))
       ''Ord9'' = orders_coll exampleDb ''Ord9''"
proof -
  have a: "''Cancelled'' \<noteq> ''Ready for Pickup''" and b: "''Cancelled'' \<noteq> ''Completed''"
    by simp_all
  have c: "find (\<lambda>x. id_order x = ''Ord1'') [exampleOrder] = Some exampleOrder
      \<and> ref exampleOrder = Some ''orders/Ord1'' \<and> orders_coll exampleDb ''Ord1'' = Some exampleDoc"
    by (simp add: exampleOrder_def exampleDb_def)
  from C7_other_status [OF a b, of 7 "''T7''" "[exampleOrder]" "''Ord1''" exampleDb] c
  show ?thesis
    by (simp add: exampleDb_def exampleDoc_def)
qed

section \<open>Properties of the search filter\<close>






















section \<open>Entering Completed\<close>

lemma updateFunction_completed:
  "updateFunction now nowIso order ordId ''Completed'' d =
     (case orders_coll d ordId of
        None \<Rightarrow> Inl (Error ''Order not found'')
      | Some doc \<Rightarrow>
          Inr [SetSale (saleOf now ordId order),
               UpdateOrder ordId ''Completed'' nowIso (Some nowIso)])"
  by (simp add: updateFunction_def split: option.splits)

text \<open>
  C4 (amended).  For a loaded order whose document exists, every transition to
  \<open>Completed\<close> appends exactly one sales document and sets \<open>status\<close>, \<open>updatedAt\<close> and
  \<open>completedAt\<close> of the order document; it does so each time, whether or not the order was
  completed before.  The subtotal of each line of the sales document is the quantity times
  the unit price.  Its amount is the total stored in the order, so that it is the sum of
  the subtotals for an order that keeps the invariant of the data model, a stored total
  equal to the sum of quantity times unit price over the lines.
\<close>

theorem C4_completed:
  assumes "find (\<lambda>x. id_order x = ordId) ords = Some order" and "ref order = Some r"
    and "orders_coll d ordId = Some doc"
  shows "handleStatusUpdate now nowIso ords ordId ''Completed'' d =
      (d\<lparr>sales_coll := sales_coll d @ [saleOf now ordId order],
         orders_coll := (orders_coll d)(ordId \<mapsto>
           doc\<lparr>orderDetails := (orderDetails doc)
             \<lparr>status := ''Completed'', orderDetails.updatedAt := Some nowIso,
              completedAt := Some nowIso\<rparr>\<rparr>)\<rparr>,
       Alert ''Order completed and sales updated successfully!'')
    \<and> sale.orderId (saleOf now ordId order) = ordId
    \<and> amount (saleOf now ordId order) = orderDetails.totalAmount (orderDetails order)
    \<and> map subtotal (sale.items (saleOf now ordId order))
        = map (\<lambda>i. productQuantity i * productPrice i) (orderDoc.items order)
    \<and> (orderDetails.totalAmount (orderDetails order)
          = spec_sum (map (\<lambda>i. productQuantity i * productPrice i) (orderDoc.items order)) \<longrightarrow>
        amount (saleOf now ordId order)
          = spec_sum (map subtotal (sale.items (saleOf now ordId order))))"
proof -
  have "handleStatusUpdate now nowIso ords ordId ''Completed'' d =
      (d\<lparr>sales_coll := sales_coll d @ [saleOf now ordId order],
         orders_coll := (orders_coll d)(ordId \<mapsto>
           doc\<lparr>orderDetails := (orderDetails doc)
             \<lparr>status := ''Completed'', orderDetails.updatedAt := Some nowIso,
              completedAt := Some nowIso\<rparr>\<rparr>)\<rparr>,
       Alert ''Order completed and sales updated successfully!'')"
    using assms(3)
    by (simp add: handleStatusUpdate_loaded [OF assms(1,2)] updateFunction_completed
        successMessage_def)
  moreover have sub: "map subtotal (sale.items (saleOf now ordId order))
        = map (\<lambda>i. productQuantity i * productPrice i) (orderDoc.items order)"
    by (simp add: saleOf_def saleItemOf_def comp_def)
  moreover have "sale.orderId (saleOf now ordId order) = ordId"
    and amt: "amount (saleOf now ordId order) = orderDetails.totalAmount (orderDetails order)"
    by (simp_all add: saleOf_def)
  ultimately show ?thesis
    by (simp only: sub amt) simp
qed

theorem C4_completed_witness:
  "handleStatusUpdate 7 ''T7'' [exampleOrder] ''Ord1'' ''Completed'' exampleDb =
      (exampleDb\<lparr>sales_coll := [saleOf 7 ''Ord1'' exampleOrder],
         orders_coll := [''Ord1'' \<mapsto>
           exampleDoc\<lparr>orderDetails := exampleDetails
             \<lparr>status := ''Completed'', orderDetails.updatedAt := Some ''T7'',
              completedAt := Some ''T7''\<rparr>\<rparr>]\<rparr>,
       Alert ''Order completed and sales updated successfully!'')
   \<and> amount (saleOf 7 ''Ord1'' exampleOrder) = 190
   \<and> map subtotal (sale.items (saleOf 7 ''Ord1'' exampleOrder)) = [150, 40]
   \<and> spec_sum (map subtotal (sale.items (saleOf 7 ''Ord1'' exampleOrder))) = 190"
proof -
  have a: "find (\<lambda>x. id_order x = ''Ord1'') [exampleOrder] = Some exampleOrder"
    and b: "ref exampleOrder = Some ''orders/Ord1''"
    and c: "orders_coll exampleDb ''Ord1'' = Some exampleDoc"
    by (simp_all add: exampleOrder_def exampleDb_def)
  have inv: "orderDetails.totalAmount (orderDetails exampleOrder)
      = spec_sum (map (\<lambda>i. productQuantity i * productPrice i) (orderDoc.items exampleOrder))"
    by (simp add: example_defs)
  from C4_completed [OF a b c, of 7 "''T7''"] inv show ?thesis
    by (simp add: exampleDb_def exampleDoc_def exampleOrder_def exampleDetails_def
        exampleItemA_def exampleItemB_def)
qed

text \<open>
  A sales document is written at each transition to \<open>Completed\<close>, not once for an order:
  the update completes the order, sets it back to \<open>Preparing Order\<close> and completes it again,
  and the order then has two sales documents.
\<close>

theorem C4_completed_twice_counterexample:
  "map sale.orderId (sales_coll (fst
     (handleStatusUpdate 9 ''T9'' [exampleOrder] ''Ord1'' ''Completed'' (fst
       (handleStatusUpdate 8 ''T8'' [exampleOrder] ''Ord1'' ''Preparing Order'' (fst
         (handleStatusUpdate 7 ''T7'' [exampleOrder] ''Ord1'' ''Completed'' exampleDb)))))))
     = [''Ord1'', ''Ord1'']
   \<and> map sale.date (sales_coll (fst
     (handleStatusUpdate 9 ''T9'' [exampleOrder] ''Ord1'' ''Completed'' (fst
       (handleStatusUpdate 8 ''T8'' [exampleOrder] ''Ord1'' ''Preparing Order'' (fst
         (handleStatusUpdate 7 ''T7'' [exampleOrder] ''Ord1'' ''Completed'' exampleDb)))))))
     = [7, 9]"
  by (simp add: handleStatusUpdate_def runTransaction_def updateFunction_def saleOf_def
      exampleOrder_def exampleDb_def)

section \<open>Properties of saveTrackingOrder\<close>

text \<open>
  What a save does to the documents of one order id: without a document it adds one, with
  the server time in both timestamps; with documents it replaces the first by the fields
  built from the order, among them \<open>createdAt\<close>, and the server time in \<open>updatedAt\<close>.
\<close>

lemma filter_updateFirst:
  assumes "P y" and "filter P xs = x # rest"
  shows "filter P (updateFirst P y xs) = y # rest"
  using assms by (induction xs) (auto split: if_splits)

lemma saveTrackingOrder_absent:
  assumes "filter (\<lambda>t. trackingOrder.orderId t = id_order order) (tracking_orders_coll d) = []"
  shows "filter (\<lambda>t. trackingOrder.orderId t = id_order order)
           (tracking_orders_coll (saveTrackingOrder parseDate now serverNow order d))
         = [(buildTrackingOrder parseDate now order)
              \<lparr>trackingOrder.createdAt := serverNow, trackingOrder.updatedAt := serverNow\<rparr>]"
  using assms by (simp add: saveTrackingOrder_def Let_def buildTrackingOrder_def)

lemma saveTrackingOrder_present:
  assumes "filter (\<lambda>t. trackingOrder.orderId t = id_order order) (tracking_orders_coll d)
             = t0 # rest"
  shows "filter (\<lambda>t. trackingOrder.orderId t = id_order order)
           (tracking_orders_coll (saveTrackingOrder parseDate now serverNow order d))
         = (buildTrackingOrder parseDate now order)\<lparr>trackingOrder.updatedAt := serverNow\<rparr> # rest"
proof -
  have "trackingOrder.orderId
          ((buildTrackingOrder parseDate now order)\<lparr>trackingOrder.updatedAt := serverNow\<rparr>)
        = id_order order"
    by (simp add: buildTrackingOrder_def)
  then show ?thesis
    using assms by (simp add: saveTrackingOrder_def Let_def filter_updateFirst)
qed

text \<open>
  C6.  Saving the same order twice leaves one tracking document, but the second save does
  not keep the creation timestamp the first one stored: the insertion stores the server
  time (5000), and the update stores the date parsed from the order (1000) in its place.
\<close>

theorem C6_createdAt_overwritten:
  "map trackingOrder.orderId
     (tracking_orders_coll (saveTrackingOrder exampleParseDate 4999 5000 exampleOrder exampleDb))
     = [''Ord1'']
   \<and> map trackingOrder.createdAt
     (tracking_orders_coll (saveTrackingOrder exampleParseDate 4999 5000 exampleOrder exampleDb))
     = [5000]
   \<and> map trackingOrder.orderId
     (tracking_orders_coll (saveTrackingOrder exampleParseDate 5999 6000 exampleOrder
        (saveTrackingOrder exampleParseDate 4999 5000 exampleOrder exampleDb)))
     = [''Ord1'']
   \<and> map trackingOrder.createdAt
     (tracking_orders_coll (saveTrackingOrder exampleParseDate 5999 6000 exampleOrder
        (saveTrackingOrder exampleParseDate 4999 5000 exampleOrder exampleDb)))
     = [1000]
   \<and> map trackingOrder.updatedAt
     (tracking_orders_coll (saveTrackingOrder exampleParseDate 5999 6000 exampleOrder
        (saveTrackingOrder exampleParseDate 4999 5000 exampleOrder exampleDb)))
     = [6000]"
  by (simp add: saveTrackingOrder_def buildTrackingOrder_def exampleOrder_def exampleDb_def
      exampleParseDate_def)

section \<open>Entering Ready for Pickup\<close>






lemma reduceStock_ok:
  assumes "\<forall>e\<in>set its. canFulfil d e"
  shows "reduceStock now ordId d its =
     Inr (concat (map (\<lambda>e.
       [UpdateStock (id_stock (the (firstMatch d e)))
          (stock.quantity (the (firstMatch d e)) - productQuantity e) now,
        SetHistory (historyEntry now ordId e (the (firstMatch d e)))]) its))"
  using assms
  by (induction its) (auto simp: canFulfil_def firstMatch_def split: list.splits sum.splits)

lemma updateFunction_ready:
  "updateFunction now nowIso order ordId ''Ready for Pickup'' d =
     (case orders_coll d ordId of
        None \<Rightarrow> Inl (Error ''Order not found'')
      | Some doc \<Rightarrow>
          (case reduceStock now ordId d (orderDoc.items order) of
             Inl e \<Rightarrow> Inl e
           | Inr ws \<Rightarrow> Inr (ws @ [UpdateOrder ordId ''Ready for Pickup'' nowIso None])))"
  by (simp add: updateFunction_def split: option.splits sum.splits)








subsection \<open>The queued stock writes, applied\<close>

lemma fold_stock_writes:
  "fold applyWrite (concat (map (\<lambda>e. [UpdateStock (sid e) (q e) t, SetHistory (h e)]) its)) d0 =
     d0\<lparr>stocks_coll :=
          fold (\<lambda>e. map (\<lambda>s. if id_stock s = sid e
                               then s\<lparr>stock.quantity := q e, lastUpdated := t\<rparr> else s))
            its (stocks_coll d0),
        stockHistory_coll := stockHistory_coll d0 @ map h its\<rparr>"
  by (induction its arbitrary: d0) simp_all

lemma find_map_update:
  "find (\<lambda>x. id_stock x = k)
     (map (\<lambda>s. if id_stock s = j then s\<lparr>stock.quantity := n, lastUpdated := t\<rparr> else s) ss) =
   (if k = j
    then map_option (\<lambda>s. s\<lparr>stock.quantity := n, lastUpdated := t\<rparr>) (find (\<lambda>x. id_stock x = k) ss)
    else find (\<lambda>x. id_stock x = k) ss)"
  by (induction ss) auto

lemma find_fold_other:
  assumes "k \<notin> sid ` set its"
  shows "find (\<lambda>x. id_stock x = k)
           (fold (\<lambda>e. map (\<lambda>s. if id_stock s = sid e
                                then s\<lparr>stock.quantity := q e, lastUpdated := t\<rparr> else s))
              its ss)
         = find (\<lambda>x. id_stock x = k) ss"
  using assms by (induction its arbitrary: ss) (auto simp: find_map_update)

lemma find_fold_selected:
  assumes "distinct (map sid its)" and "e \<in> set its"
  shows "find (\<lambda>x. id_stock x = sid e)
           (fold (\<lambda>e. map (\<lambda>s. if id_stock s = sid e
                                then s\<lparr>stock.quantity := q e, lastUpdated := t\<rparr> else s))
              its ss)
         = map_option (\<lambda>s. s\<lparr>stock.quantity := q e, lastUpdated := t\<rparr>)
             (find (\<lambda>x. id_stock x = sid e) ss)"
  using assms
proof (induction its arbitrary: ss)
  case Nil
  then show ?case by simp
next
  case (Cons a its)
  show ?case
  proof (cases "e = a")
    case True
    with Cons.prems have "sid e \<notin> sid ` set its"
      by auto
    then show ?thesis
      using True by (simp add: find_fold_other find_map_update)
  next
    case False
    with Cons.prems have "e \<in> set its" "distinct (map sid its)" "sid e \<noteq> sid a"
      by (auto simp: image_iff)
    then show ?thesis
      by (simp add: Cons.IH find_map_update)
  qed
qed

lemma map_id_fold:
  "map id_stock (fold (\<lambda>e. map (\<lambda>s. if id_stock s = sid e
                                then s\<lparr>stock.quantity := q e, lastUpdated := t\<rparr> else s))
              its ss) = map id_stock ss"
proof (induction its arbitrary: ss)
  case Nil
  then show ?case by simp
next
  case (Cons a its)
  have "map id_stock (map (\<lambda>s. if id_stock s = sid a
           then s\<lparr>stock.quantity := q a, lastUpdated := t\<rparr> else s) ss) = map id_stock ss"
    by (induction ss) simp_all
  then show ?case
    by (simp add: Cons.IH)
qed

lemma find_by_id:
  assumes "distinct (map id_stock ss)" and "s \<in> set ss"
  shows "find (\<lambda>x. id_stock x = id_stock s) ss = Some s"
  using assms by (induction ss) auto

lemma firstMatch_in_stocks:
  assumes "firstMatch d e = Some s"
  shows "s \<in> set (stocks_coll d)"
proof -
  from assms have "s \<in> set (matchingStocks d e)"
    by (auto simp: firstMatch_def stockQuery_def split: list.splits sum.splits if_splits)
  then show ?thesis
    by (simp add: matchingStocks_def)
qed

text \<open>
  C1 (amended).  Let a loaded order, whose document exists, be such that every line item
  selects a stock document (the first that matches it by size and by a shared variety)
  holding not less than the quantity asked for, and that no two line items select the same
  document; stock documents have distinct ids.  Then the transition to \<open>Ready for Pickup\<close>
  succeeds; each selected document ends with its quantity \<open>Q\<close> lowered to \<open>Q - q\<close> and the
  others are unchanged; the stock history grows by exactly one entry for each line item,
  in order, with \<open>previousStock = Q\<close>, \<open>currentStock = Q - q\<close>, type \<open>out\<close> and a remark that
  names the order id; the status of the order document is \<open>Ready for Pickup\<close>.
\<close>

theorem C1_ready_for_pickup:
  assumes "find (\<lambda>x. id_order x = ordId) ords = Some order" and "ref order = Some r"
    and "orders_coll d ordId = Some doc"
    and "distinct (map id_stock (stocks_coll d))"
    and "\<forall>e\<in>set (orderDoc.items order). canFulfil d e"
    and "distinct (map (\<lambda>e. map_option id_stock (firstMatch d e)) (orderDoc.items order))"
  shows "\<exists>d' hs.
      handleStatusUpdate now nowIso ords ordId ''Ready for Pickup'' d
        = (d', Alert ''Order status updated successfully!'')
    \<and> (\<forall>e\<in>set (orderDoc.items order). \<forall>s. firstMatch d e = Some s \<longrightarrow>
          find (\<lambda>x. id_stock x = id_stock s) (stocks_coll d')
            = Some (s\<lparr>stock.quantity := stock.quantity s - productQuantity e,
                      lastUpdated := now\<rparr>))
    \<and> (\<forall>x\<in>set (stocks_coll d). (\<forall>e\<in>set (orderDoc.items order). firstMatch d e \<noteq> Some x) \<longrightarrow>
          find (\<lambda>y. id_stock y = id_stock x) (stocks_coll d') = Some x)
    \<and> map id_stock (stocks_coll d') = map id_stock (stocks_coll d)
    \<and> stockHistory_coll d' = stockHistory_coll d @ hs
    \<and> list_all2 (\<lambda>e h. \<exists>s. firstMatch d e = Some s
          \<and> h = historyEntry now ordId e s
          \<and> previousStock h = stock.quantity s
          \<and> currentStock h = stock.quantity s - productQuantity e
          \<and> type_history h = ''out''
          \<and> remarks h = ''Order '' @ ordId @ '' ready for pickup'')
        (orderDoc.items order) hs
    \<and> orders_coll d' = (orders_coll d)(ordId \<mapsto>
          doc\<lparr>orderDetails := (orderDetails doc)
            \<lparr>status := ''Ready for Pickup'', orderDetails.updatedAt := Some nowIso\<rparr>\<rparr>)
    \<and> sales_coll d' = sales_coll d"
proof -
  let ?its = "orderDoc.items order"
  define sid where "sid = (\<lambda>e. id_stock (the (firstMatch d e)))"
  define q where "q = (\<lambda>e. stock.quantity (the (firstMatch d e)) - productQuantity e)"
  define h where "h = (\<lambda>e. historyEntry now ordId e (the (firstMatch d e)))"
  define ss' where "ss' =
    fold (\<lambda>e. map (\<lambda>s. if id_stock s = sid e
                         then s\<lparr>stock.quantity := q e, lastUpdated := now\<rparr> else s))
      ?its (stocks_coll d)"
  define d' where "d' =
    d\<lparr>stocks_coll := ss', stockHistory_coll := stockHistory_coll d @ map h ?its,
      orders_coll := (orders_coll d)(ordId \<mapsto>
          doc\<lparr>orderDetails := (orderDetails doc)
            \<lparr>status := ''Ready for Pickup'', orderDetails.updatedAt := Some nowIso\<rparr>\<rparr>)\<rparr>"
  have rs: "reduceStock now ordId d ?its =
      Inr (concat (map (\<lambda>e. [UpdateStock (sid e) (q e) now, SetHistory (h e)]) ?its))"
    unfolding sid_def q_def h_def by (rule reduceStock_ok [OF assms(5)])
  have res: "handleStatusUpdate now nowIso ords ordId ''Ready for Pickup'' d
      = (d', Alert ''Order status updated successfully!'')"
    using assms(3)
    by (simp add: handleStatusUpdate_loaded [OF assms(1,2)] updateFunction_ready rs
        fold_stock_writes successMessage_def d'_def ss'_def)
  have some: "\<exists>s. firstMatch d e = Some s" if "e \<in> set ?its" for e
    using assms(5) that by (auto simp: canFulfil_def split: option.splits)
  have "map (\<lambda>e. map_option id_stock (firstMatch d e)) ?its = map Some (map sid ?its)"
  proof -
    have "map_option id_stock (firstMatch d e) = Some (sid e)" if "e \<in> set ?its" for e
      using some [OF that] by (auto simp: sid_def)
    then show ?thesis
      by simp
  qed
  with assms(6) have "distinct (map Some (map sid ?its))"
    by simp
  then have dsid: "distinct (map sid ?its)"
    by (auto simp only: distinct_map)
  have sel: "find (\<lambda>x. id_stock x = id_stock s) ss'
      = Some (s\<lparr>stock.quantity := stock.quantity s - productQuantity e, lastUpdated := now\<rparr>)"
    if "e \<in> set ?its" "firstMatch d e = Some s" for e s
  proof -
    have "find (\<lambda>x. id_stock x = sid e) ss'
        = map_option (\<lambda>s. s\<lparr>stock.quantity := q e, lastUpdated := now\<rparr>)
            (find (\<lambda>x. id_stock x = sid e) (stocks_coll d))"
      unfolding ss'_def by (rule find_fold_selected [OF dsid that(1)])
    moreover have "sid e = id_stock s" "q e = stock.quantity s - productQuantity e"
      by (simp_all add: sid_def q_def that(2))
    moreover have "find (\<lambda>x. id_stock x = id_stock s) (stocks_coll d) = Some s"
      by (rule find_by_id [OF assms(4) firstMatch_in_stocks [OF that(2)]])
    ultimately show ?thesis
      by simp
  qed
  have unsel: "find (\<lambda>y. id_stock y = id_stock x) ss' = Some x"
    if "x \<in> set (stocks_coll d)" "\<forall>e\<in>set ?its. firstMatch d e \<noteq> Some x" for x
  proof -
    have "id_stock x \<notin> sid ` set ?its"
    proof
      assume "id_stock x \<in> sid ` set ?its"
      then obtain e where e: "e \<in> set ?its" "id_stock x = sid e"
        by blast
      then obtain s where s: "firstMatch d e = Some s"
        using some by blast
      then have eq: "id_stock s = id_stock x"
        using e(2) by (simp add: sid_def)
      have fs: "find (\<lambda>y. id_stock y = id_stock s) (stocks_coll d) = Some s"
        by (rule find_by_id [OF assms(4) firstMatch_in_stocks [OF s]])
      have fx: "find (\<lambda>y. id_stock y = id_stock x) (stocks_coll d) = Some x"
        by (rule find_by_id [OF assms(4) that(1)])
      from fs [unfolded eq] fx have "s = x"
        by simp
      with s e(1) that(2) show False
        by blast
    qed
    then have "find (\<lambda>y. id_stock y = id_stock x) ss'
        = find (\<lambda>y. id_stock y = id_stock x) (stocks_coll d)"
      unfolding ss'_def by (rule find_fold_other)
    then show ?thesis
      by (simp add: find_by_id [OF assms(4) that(1)])
  qed
  have ids: "map id_stock ss' = map id_stock (stocks_coll d)"
    unfolding ss'_def by (rule map_id_fold)
  have hist: "list_all2 (\<lambda>e h. \<exists>s. firstMatch d e = Some s
          \<and> h = historyEntry now ordId e s
          \<and> previousStock h = stock.quantity s
          \<and> currentStock h = stock.quantity s - productQuantity e
          \<and> type_history h = ''out''
          \<and> remarks h = ''Order '' @ ordId @ '' ready for pickup'')
        ?its (map h ?its)"
  proof -
    have "\<exists>s. firstMatch d e = Some s
          \<and> h e = historyEntry now ordId e s
          \<and> previousStock (h e) = stock.quantity s
          \<and> currentStock (h e) = stock.quantity s - productQuantity e
          \<and> type_history (h e) = ''out''
          \<and> remarks (h e) = ''Order '' @ ordId @ '' ready for pickup''"
      if "e \<in> set ?its" for e
    proof -
      from some [OF that] obtain s where "firstMatch d e = Some s"
        by blast
      then show ?thesis
        by (simp add: h_def historyEntry_def)
    qed
    then show ?thesis
      by (simp add: list_all2_map2 list_all2_same)
  qed
  have "stocks_coll d' = ss'" "stockHistory_coll d' = stockHistory_coll d @ map h ?its"
    "sales_coll d' = sales_coll d"
    "orders_coll d' = (orders_coll d)(ordId \<mapsto>
          doc\<lparr>orderDetails := (orderDetails doc)
            \<lparr>status := ''Ready for Pickup'', orderDetails.updatedAt := Some nowIso\<rparr>\<rparr>)"
    by (simp_all add: d'_def)
  with res sel unsel ids hist show ?thesis
    by (intro exI [of _ d'] exI [of _ "map h ?its"]) simp
qed

theorem C1_ready_for_pickup_witness:
  "snd (handleStatusUpdate 7 ''T7'' [exampleOrder] ''Ord1'' ''Ready for Pickup''
          (exampleDb\<lparr>stocks_coll := [exampleStockA, exampleStockB,
             exampleStockA\<lparr>id_stock := ''s3'', stock.sizeName := ''Medium''\<rparr>]\<rparr>))
     = Alert ''Order status updated successfully!''
   \<and> find (\<lambda>x. id_stock x = ''s1'')
        (stocks_coll (fst (handleStatusUpdate 7 ''T7'' [exampleOrder] ''Ord1''
           ''Ready for Pickup''
           (exampleDb\<lparr>stocks_coll := [exampleStockA, exampleStockB,
              exampleStockA\<lparr>id_stock := ''s3'', stock.sizeName := ''Medium''\<rparr>]\<rparr>))))
     = Some (exampleStockA\<lparr>stock.quantity := 2, lastUpdated := 7\<rparr>)
   \<and> find (\<lambda>x. id_stock x = ''s2'')
        (stocks_coll (fst (handleStatusUpdate 7 ''T7'' [exampleOrder] ''Ord1''
           ''Ready for Pickup''
           (exampleDb\<lparr>stocks_coll := [exampleStockA, exampleStockB,
              exampleStockA\<lparr>id_stock := ''s3'', stock.sizeName := ''Medium''\<rparr>]\<rparr>))))
     = Some (exampleStockB\<lparr>stock.quantity := 8, lastUpdated := 7\<rparr>)
   \<and> find (\<lambda>x. id_stock x = ''s3'')
        (stocks_coll (fst (handleStatusUpdate 7 ''T7'' [exampleOrder] ''Ord1''
           ''Ready for Pickup''
           (exampleDb\<lparr>stocks_coll := [exampleStockA, exampleStockB,
              exampleStockA\<lparr>id_stock := ''s3'', stock.sizeName := ''Medium''\<rparr>]\<rparr>))))
     = Some (exampleStockA\<lparr>id_stock := ''s3'', stock.sizeName := ''Medium''\<rparr>)
   \<and> stockHistory_coll (fst (handleStatusUpdate 7 ''T7'' [exampleOrder] ''Ord1''
           ''Ready for Pickup''
           (exampleDb\<lparr>stocks_coll := [exampleStockA, exampleStockB,
              exampleStockA\<lparr>id_stock := ''s3'', stock.sizeName := ''Medium''\<rparr>]\<rparr>)))
     = [historyEntry 7 ''Ord1'' exampleItemA exampleStockA,
        historyEntry 7 ''Ord1'' exampleItemB exampleStockB]
   \<and> map_option (\<lambda>doc. status (orderDetails doc))
        (orders_coll (fst (handleStatusUpdate 7 ''T7'' [exampleOrder] ''Ord1''
           ''Ready for Pickup''
           (exampleDb\<lparr>stocks_coll := [exampleStockA, exampleStockB,
              exampleStockA\<lparr>id_stock := ''s3'', stock.sizeName := ''Medium''\<rparr>]\<rparr>))) ''Ord1'')
     = Some ''Ready for Pickup''"
proof -
  let ?c = "exampleStockA\<lparr>id_stock := ''s3'', stock.sizeName := ''Medium''\<rparr>"
  let ?d = "exampleDb\<lparr>stocks_coll := [exampleStockA, exampleStockB, ?c]\<rparr>"
  have a: "find (\<lambda>x. id_order x = ''Ord1'') [exampleOrder] = Some exampleOrder"
    and b: "ref exampleOrder = Some ''orders/Ord1''"
    and c: "orders_coll ?d ''Ord1'' = Some exampleDoc"
    and its: "orderDoc.items exampleOrder = [exampleItemA, exampleItemB]"
    by (simp_all add: exampleOrder_def exampleDb_def)
  have fmA: "firstMatch ?d exampleItemA = Some exampleStockA"
    and fmB: "firstMatch ?d exampleItemB = Some exampleStockB"
    by (simp_all add: query_defs example_defs)
  have dd: "distinct (map id_stock (stocks_coll ?d))"
    by (simp add: example_defs)
  have e: "\<forall>e\<in>set (orderDoc.items exampleOrder). canFulfil ?d e"
    by (simp add: its canFulfil_def fmA fmB) (simp add: example_defs)
  have f: "distinct (map (\<lambda>e. map_option id_stock (firstMatch ?d e))
      (orderDoc.items exampleOrder))"
    by (simp add: its fmA fmB) (simp add: example_defs)
  from C1_ready_for_pickup [OF a b c dd e f, of 7 "''T7''"]
  obtain d' hs where
    res: "handleStatusUpdate 7 ''T7'' [exampleOrder] ''Ord1'' ''Ready for Pickup'' ?d
        = (d', Alert ''Order status updated successfully!'')"
    and sel: "\<forall>e\<in>set (orderDoc.items exampleOrder). \<forall>s. firstMatch ?d e = Some s \<longrightarrow>
          find (\<lambda>x. id_stock x = id_stock s) (stocks_coll d')
            = Some (s\<lparr>stock.quantity := stock.quantity s - productQuantity e,
                      lastUpdated := 7\<rparr>)"
    and unsel: "\<forall>x\<in>set (stocks_coll ?d).
          (\<forall>e\<in>set (orderDoc.items exampleOrder). firstMatch ?d e \<noteq> Some x) \<longrightarrow>
          find (\<lambda>y. id_stock y = id_stock x) (stocks_coll d') = Some x"
    and hist: "stockHistory_coll d' = stockHistory_coll ?d @ hs"
      "list_all2 (\<lambda>e h. \<exists>s. firstMatch ?d e = Some s
          \<and> h = historyEntry 7 ''Ord1'' e s
          \<and> previousStock h = stock.quantity s
          \<and> currentStock h = stock.quantity s - productQuantity e
          \<and> type_history h = ''out''
          \<and> remarks h = ''Order '' @ ''Ord1'' @ '' ready for pickup'')
        (orderDoc.items exampleOrder) hs"
    and ord: "orders_coll d' = (orders_coll ?d)(''Ord1'' \<mapsto>
          exampleDoc\<lparr>orderDetails := (orderDetails exampleDoc)
            \<lparr>status := ''Ready for Pickup'', orderDetails.updatedAt := Some ''T7''\<rparr>\<rparr>)"
    by (elim exE conjE)
  from sel fmA have sA: "find (\<lambda>x. id_stock x = id_stock exampleStockA) (stocks_coll d')
      = Some (exampleStockA\<lparr>stock.quantity :=
                stock.quantity exampleStockA - productQuantity exampleItemA, lastUpdated := 7\<rparr>)"
    by (simp add: its)
  from sel fmB have sB: "find (\<lambda>x. id_stock x = id_stock exampleStockB) (stocks_coll d')
      = Some (exampleStockB\<lparr>stock.quantity :=
                stock.quantity exampleStockB - productQuantity exampleItemB, lastUpdated := 7\<rparr>)"
    by (simp add: its)
  have "?c \<noteq> exampleStockA" "?c \<noteq> exampleStockB"
    by (simp_all add: example_defs)
  with unsel fmA fmB have "find (\<lambda>y. id_stock y = id_stock ?c) (stocks_coll d') = Some ?c"
    by (simp add: its)
  then have sC: "find (\<lambda>y. id_stock y = ''s3'') (stocks_coll d') = Some ?c"
    by simp
  from hist(2) have hs: "hs = [historyEntry 7 ''Ord1'' exampleItemA exampleStockA,
        historyEntry 7 ''Ord1'' exampleItemB exampleStockB]"
    by (auto simp: its list_all2_Cons1 fmA fmB)
  have "stockHistory_coll ?d = []"
    by (simp add: exampleDb_def)
  with hist(1) hs have h: "stockHistory_coll d'
      = [historyEntry 7 ''Ord1'' exampleItemA exampleStockA,
         historyEntry 7 ''Ord1'' exampleItemB exampleStockB]"
    by simp
  have idA: "id_stock exampleStockA = ''s1''" "stock.quantity exampleStockA = 5"
    "productQuantity exampleItemA = 3"
    and idB: "id_stock exampleStockB = ''s2''" "stock.quantity exampleStockB = 10"
    "productQuantity exampleItemB = 2"
    by (simp_all add: example_defs)
  from sA sB sC h ord show ?thesis
    unfolding res idA idB by simp
qed

text \<open>
  A stock document that matches a line item and holds enough is left as it is when it is not
  the first match: the second document below matches and holds 4, the item asks for 3, and
  after the transition it still holds 4; the one history entry records the first document.
\<close>

theorem C1_first_match_counterexample:
  "stockQuery
     (exampleDb\<lparr>stocks_coll := [exampleStockA,
        exampleStockA\<lparr>id_stock := ''s3'', stock.varieties := [''Ube''], stock.quantity := 4\<rparr>]\<rparr>)
     exampleItemA
     = Inr [exampleStockA,
        exampleStockA\<lparr>id_stock := ''s3'', stock.varieties := [''Ube''], stock.quantity := 4\<rparr>]
   \<and> productQuantity exampleItemA = 3
   \<and> snd (handleStatusUpdate 7 ''T7'' [exampleOrder\<lparr>orderDoc.items := [exampleItemA]\<rparr>]
       ''Ord1'' ''Ready for Pickup''
       (exampleDb\<lparr>stocks_coll := [exampleStockA,
          exampleStockA\<lparr>id_stock := ''s3'', stock.varieties := [''Ube''], stock.quantity := 4\<rparr>]\<rparr>))
     = Alert ''Order status updated successfully!''
   \<and> map stock.quantity
       (stocks_coll (fst (handleStatusUpdate 7 ''T7'' [exampleOrder\<lparr>orderDoc.items := [exampleItemA]\<rparr>]
          ''Ord1'' ''Ready for Pickup''
          (exampleDb\<lparr>stocks_coll := [exampleStockA,
             exampleStockA\<lparr>id_stock := ''s3'', stock.varieties := [''Ube''], stock.quantity := 4\<rparr>]\<rparr>))))
     = [2, 4]
   \<and> map previousStock
       (stockHistory_coll (fst (handleStatusUpdate 7 ''T7'' [exampleOrder\<lparr>orderDoc.items := [exampleItemA]\<rparr>]
          ''Ord1'' ''Ready for Pickup''
          (exampleDb\<lparr>stocks_coll := [exampleStockA,
             exampleStockA\<lparr>id_stock := ''s3'', stock.varieties := [''Ube''], stock.quantity := 4\<rparr>]\<rparr>))))
     = [5]"
  by (simp add: handleStatusUpdate_def runTransaction_def updateFunction_def successMessage_def
      stockQuery_def matchingStocks_def arrayContainsAny_def historyEntry_def example_defs)

text \<open>
  Why the line items must select different documents: the loop reads the stored quantity
  for each item, not the quantity its earlier writes have queued.  Two items that select
  the same document, asking for 3 and for 1 of its 5, leave it at 4, and both history
  entries record 5 as the previous stock.
\<close>

lemma shared_stock_record_example:
  "map stock.quantity
     (stocks_coll (fst (handleStatusUpdate 7 ''T7''
        [exampleOrder\<lparr>orderDoc.items :=
           [exampleItemA, exampleItemA\<lparr>productVarieties := [''Pandan''], productQuantity := 1\<rparr>]\<rparr>]
        ''Ord1'' ''Ready for Pickup'' exampleDb)))
     = [4, 10]
   \<and> map previousStock
     (stockHistory_coll (fst (handleStatusUpdate 7 ''T7''
        [exampleOrder\<lparr>orderDoc.items :=
           [exampleItemA, exampleItemA\<lparr>productVarieties := [''Pandan''], productQuantity := 1\<rparr>]\<rparr>]
        ''Ord1'' ''Ready for Pickup'' exampleDb)))
     = [5, 5]
   \<and> map currentStock
     (stockHistory_coll (fst (handleStatusUpdate 7 ''T7''
        [exampleOrder\<lparr>orderDoc.items :=
           [exampleItemA, exampleItemA\<lparr>productVarieties := [''Pandan''], productQuantity := 1\<rparr>]\<rparr>]
        ''Ord1'' ''Ready for Pickup'' exampleDb)))
     = [2, 4]"
  by (simp add: handleStatusUpdate_def runTransaction_def updateFunction_def successMessage_def
      stockQuery_def matchingStocks_def arrayContainsAny_def historyEntry_def example_defs)

section \<open>Two transitions on one stock document\<close>

text \<open>
  With no commit between the two steps, they are \<open>runTransaction\<close>: the commit is never
  refused and applies the queued writes to the store that was read.
\<close>

lemma commitWrites_same_store:
  "commitWrites ordId d ws d = Some (fold applyWrite ws d)"
  by (simp add: commitWrites_def)

lemma handleStatusUpdate_two_steps:
  assumes "find (\<lambda>x. id_order x = ordId) ords = Some order" and "ref order = Some r"
  shows "finishTransaction ordId newStatus d (updateFunction now nowIso order ordId newStatus d) d
           = Some (handleStatusUpdate now nowIso ords ordId newStatus d)"
  by (simp add: handleStatusUpdate_loaded [OF assms] finishTransaction_def
      commitWrites_same_store split: sum.splits error.splits)

text \<open>
  C8.  Two orders each ask for 3 of the same stock document, which holds 5.  When both
  transaction functions run before either transaction commits, both read 5 with
  \<^verbatim>\<open>getDocs\<close>, both pass the check and both queue the quantity 2.  Neither commit is
  refused, since each transaction read only its own order document through the
  transaction.  Both transitions succeed: the stock document ends at 2 though 6 were taken,
  and the history has two entries, each from 5 to 2.
\<close>

theorem C8_overlapping_transitions:
  "overlappingUpdates
     7 ''T7'' (exampleOrder\<lparr>orderDoc.items := [exampleItemA]\<rparr>)
     8 ''T8'' (exampleOrder\<lparr>orderDoc.items := [exampleItemA], id_order := ''Ord2'',
                ref := Some ''orders/Ord2''\<rparr>)
     ''Ready for Pickup''
     (exampleDb\<lparr>orders_coll := [''Ord1'' \<mapsto> exampleDoc, ''Ord2'' \<mapsto> exampleDoc]\<rparr>)
   = Some
      (exampleDb\<lparr>orders_coll := [''Ord1'' \<mapsto>
            exampleDoc\<lparr>orderDetails := exampleDetails
              \<lparr>status := ''Ready for Pickup'', orderDetails.updatedAt := Some ''T7''\<rparr>\<rparr>,
          ''Ord2'' \<mapsto>
            exampleDoc\<lparr>orderDetails := exampleDetails
              \<lparr>status := ''Ready for Pickup'', orderDetails.updatedAt := Some ''T8''\<rparr>\<rparr>],
         stocks_coll := [exampleStockA\<lparr>stock.quantity := 2, lastUpdated := 8\<rparr>, exampleStockB],
         stockHistory_coll := [historyEntry 7 ''Ord1'' exampleItemA exampleStockA,
                               historyEntry 8 ''Ord2'' exampleItemA exampleStockA]\<rparr>,
       Alert ''Order status updated successfully!'',
       Alert ''Order status updated successfully!'')
   \<and> stock.quantity exampleStockA = 5
   \<and> productQuantity exampleItemA = 3
   \<and> previousStock (historyEntry 7 ''Ord1'' exampleItemA exampleStockA) = 5
   \<and> currentStock (historyEntry 7 ''Ord1'' exampleItemA exampleStockA) = 2
   \<and> previousStock (historyEntry 8 ''Ord2'' exampleItemA exampleStockA) = 5
   \<and> currentStock (historyEntry 8 ''Ord2'' exampleItemA exampleStockA) = 2"
  by (simp add: overlappingUpdates_def finishTransaction_def commitWrites_def updateFunction_def
      successMessage_def
      stockQuery_def matchingStocks_def arrayContainsAny_def historyEntry_def example_defs
      fun_upd_twist)

text \<open>
  The same two orders, one transition after the other: the first succeeds and leaves 2 and
  one history entry, the second fails for lack of stock and changes nothing.
\<close>

lemma sequential_contention_example:
  "handleStatusUpdate 8 ''T8''
     [exampleOrder\<lparr>orderDoc.items := [exampleItemA]\<rparr>,
      exampleOrder\<lparr>orderDoc.items := [exampleItemA], id_order := ''Ord2'',
        ref := Some ''orders/Ord2''\<rparr>]
     ''Ord2'' ''Ready for Pickup''
     (fst (handleStatusUpdate 7 ''T7''
        [exampleOrder\<lparr>orderDoc.items := [exampleItemA]\<rparr>,
         exampleOrder\<lparr>orderDoc.items := [exampleItemA], id_order := ''Ord2'',
           ref := Some ''orders/Ord2''\<rparr>]
        ''Ord1'' ''Ready for Pickup''
        (exampleDb\<lparr>orders_coll := [''Ord1'' \<mapsto> exampleDoc, ''Ord2'' \<mapsto> exampleDoc]\<rparr>)))
   = (exampleDb\<lparr>orders_coll := [''Ord1'' \<mapsto>
          exampleDoc\<lparr>orderDetails := exampleDetails
            \<lparr>status := ''Ready for Pickup'', orderDetails.updatedAt := Some ''T7''\<rparr>\<rparr>,
          ''Ord2'' \<mapsto> exampleDoc],
        stocks_coll := [exampleStockA\<lparr>stock.quantity := 2, lastUpdated := 7\<rparr>, exampleStockB],
        stockHistory_coll := [historyEntry 7 ''Ord1'' exampleItemA exampleStockA]\<rparr>,
      Alert ''Insufficient stock for Large with varieties Ube'')"
  by (simp add: handleStatusUpdate_def runTransaction_def updateFunction_def
      insufficientStockMessage_def stockQuery_def matchingStocks_def arrayContainsAny_def historyEntry_def
      example_defs fun_upd_twist)

end
